theory Spec2Isabelle
  imports Complex_Main
begin

section \<open>BookIt: bookings and promo codes over the Supabase schema\<close>

text \<open>
  The development embeds the two edge functions that carry the booking logic,
  \<^verbatim>\<open>supabase/functions/bookings/index.ts\<close> and the promo-validate function, together
  with the part of the migration (the four \<^verbatim>\<open>CREATE TABLE\<close> statements) that decides
  when a store call fails.

  Conventions of the embedding.
  \<^item> A JSON body field is an \<open>option\<close>: \<open>None\<close> is an absent (or null) field. JavaScript's
    \<^verbatim>\<open>!x\<close> is true for an absent field, for the empty string and for the number zero.
    The fields have the types of the interface \<^verbatim>\<open>BookingRequest\<close>: strings and numbers.
  \<^item> A \<^verbatim>\<open>text\<close> is a string; the column refuses a string with the character of code 0.
    An id of a request stands for the \<^verbatim>\<open>uuid\<close> that the store reads from it, written as
    the table writes it, so that ids are compared as strings.
  \<^item> \<^verbatim>\<open>numGuests\<close> is an \<open>int\<close>, and an \<^verbatim>\<open>integer\<close> column holds the \<open>int\<close>s of 32 bits.
  \<^item> An amount is an exact rational (\<open>rat\<close>): the decimal number that stands in the JSON
    text which the handler receives and sends on. A \<^verbatim>\<open>decimal(10,2)\<close> column rounds it to
    two decimal places and refuses it when the rounded value has more than eight digits
    before the point. The arithmetic of the promo-validate function is exact, in place
    of JavaScript's doubles.
  \<^item> A \<^verbatim>\<open>timestamptz\<close> is a number of milliseconds as \<open>int\<close>.
  \<^item> A table is the list of its rows, with the columns that the handlers or the stated
    properties mention. A store call fails only through a constraint of the schema or
    the type of a column. Every call is appended to a journal, which is no table of the
    store: it records the order in which the calls of a handler reach the store.
  \<^item> \<^verbatim>\<open>Math.random()\<close> is an input: the function \<open>rnd\<close> gives the result of the
    \<open>i\<close>-th call. \<^verbatim>\<open>String.prototype.toUpperCase\<close> is an input too: the promo-validate
    function takes it as its first argument, so what is proved of it holds for the
    Unicode-aware function of JavaScript.
  \<^item> A handler runs from its first store call to its last without another request in
    between.
\<close>

subsection \<open>Rows of the four tables\<close>

record experience_row =
  experience_row_id :: string
  title :: string
  price :: rat

record slot_row =
  slot_row_id :: string
  slot_experience_id :: string
  slot_date :: string
  slot_time :: string
  capacity :: int
  booked :: int
  price_modifier :: "rat option"

record booking_row =
  experience_id :: string
  slot_id :: string
  customer_name :: string
  customer_email :: string
  customer_phone :: string
  num_guests :: int
  base_amount :: "rat option"
  discount_amount :: rat
  final_amount :: "rat option"
  promo_code :: "string option"
  status :: string
  booking_reference :: string

record promo_row =
  code :: string
  discount_type :: string
  discount_value :: rat
  min_amount :: "rat option"
  max_discount :: "rat option"
  valid_from :: "int option"
  valid_until :: int
  is_active :: "bool option"

datatype db_call =
    SelectSlot string
  | InsertBooking booking_row
  | UpdateSlotBooked string int
  | SelectPromo string

record db =
  experiences :: "experience_row list"
  slots :: "slot_row list"
  bookings :: "booking_row list"
  promo_codes :: "promo_row list"
  journal :: "db_call list"

datatype db_error =
    UntranslatableCharacter string
  | NumericValueOutOfRange string
  | NotNullViolation string
  | CheckViolation string
  | UniqueViolation string
  | ForeignKeyViolation string

subsection \<open>Requests and responses\<close>

record booking_request =
  experienceId :: "string option"
  slotId :: "string option"
  customerName :: "string option"
  customerEmail :: "string option"
  customerPhone :: "string option"
  numGuests :: "int option"
  baseAmount :: "rat option"
  discountAmount :: "rat option"
  finalAmount :: "rat option"
  promoCode :: "string option"

text \<open>
  The JSON bodies the handlers answer with. \<open>ValidFalseMinimum m\<close> is the body
  \<^verbatim>\<open>{valid: false, error: `Minimum purchase of $${m} required`}\<close>; \<open>StoreError e\<close> is the
  body \<^verbatim>\<open>{error: error.message}\<close> of the \<^verbatim>\<open>catch\<close> block.
\<close>

datatype body =
    NoBody
  | ErrorBody string
  | StoreError db_error
  | BookingData booking_row
  | ValidFalse string
  | ValidFalseMinimum rat
  | ValidTrue rat rat

record response =
  http_status :: nat
  body :: body

subsection \<open>The booking reference\<close>

definition chars :: string where
  "chars = ''ABCDEFGHIJKLMNOPQRSTUVWXYZ0123456789''"

text \<open>\<^verbatim>\<open>String.prototype.charAt\<close>: the empty string when the index is out of range.\<close>

definition charAt :: "string \<Rightarrow> int \<Rightarrow> string" where
  "charAt s i = (if 0 \<le> i \<and> i < int (length s) then [s ! nat i] else [])"

function gen_loop :: "(nat \<Rightarrow> rat) \<Rightarrow> nat \<Rightarrow> string \<Rightarrow> string" where
  "gen_loop rnd i result =
     (if i < 8
      then gen_loop rnd (i + 1) (result @ charAt chars \<lfloor>rnd i * of_nat (length chars)\<rfloor>)
      else result)"
  by pat_completeness auto
termination
  by (relation "measure (\<lambda>(rnd, i, result). 8 - i)") auto

declare gen_loop.simps [simp del]

definition generateBookingReference :: "(nat \<Rightarrow> rat) \<Rightarrow> string" where
  "generateBookingReference rnd = gen_loop rnd 0 ''BK''"

subsection \<open>The store\<close>

text \<open>
  The constraints of the migration that a call of the handlers can violate:
  \<^verbatim>\<open>CONSTRAINT valid_booked CHECK (booked >= 0 AND booked <= capacity)\<close> on \<^verbatim>\<open>slots\<close>;
  \<^verbatim>\<open>CONSTRAINT valid_guests CHECK (num_guests > 0)\<close>,
  \<^verbatim>\<open>CONSTRAINT valid_status CHECK (status IN ('pending', 'confirmed', 'cancelled'))\<close>,
  \<^verbatim>\<open>base_amount decimal(10,2) NOT NULL\<close>, \<^verbatim>\<open>final_amount decimal(10,2) NOT NULL\<close>,
  \<^verbatim>\<open>booking_reference text UNIQUE NOT NULL\<close> and the two foreign keys on \<^verbatim>\<open>bookings\<close>.
  No handler writes a capacity, so \<^verbatim>\<open>valid_capacity\<close> is not among them.
  The types of the columns refuse values too: \<^verbatim>\<open>text\<close> a string with the character of
  code 0, \<^verbatim>\<open>num_guests integer\<close> a number outside 32 bits (\<^verbatim>\<open>integer out of range\<close>), and
  \<^verbatim>\<open>decimal(10,2)\<close> an amount that, rounded to two places, reaches \<open>10\<^sup>8\<close>
  (\<^verbatim>\<open>numeric field overflow\<close>).
\<close>

definition in_text :: "string \<Rightarrow> bool" where
  "in_text s = (CHR 0x00 \<notin> set s)"

definition in_integer :: "int \<Rightarrow> bool" where
  "in_integer n = (- 2147483648 \<le> n \<and> n \<le> 2147483647)"

text \<open>The rounding of \<^verbatim>\<open>numeric\<close>: to two places, a half away from zero.\<close>

definition round_decimal :: "rat \<Rightarrow> rat" where
  "round_decimal x = sgn x * of_int \<lfloor>\<bar>x\<bar> * 100 + 1 / 2\<rfloor> / 100"

definition in_decimal_10_2 :: "rat option \<Rightarrow> bool" where
  "in_decimal_10_2 a = (case a of None \<Rightarrow> True | Some x \<Rightarrow> \<bar>round_decimal x\<bar> < 10 ^ 8)"

text \<open>The row as the table keeps it: the three amounts rounded.\<close>

definition stored_booking :: "booking_row \<Rightarrow> booking_row" where
  "stored_booking b =
     b\<lparr>base_amount := map_option round_decimal (base_amount b),
       discount_amount := round_decimal (discount_amount b),
       final_amount := map_option round_decimal (final_amount b)\<rparr>"

definition valid_booked :: "slot_row \<Rightarrow> bool" where
  "valid_booked s = (booked s \<ge> 0 \<and> booked s \<le> capacity s)"

definition valid_guests :: "booking_row \<Rightarrow> bool" where
  "valid_guests b = (num_guests b > 0)"

definition valid_status :: "booking_row \<Rightarrow> bool" where
  "valid_status b = (status b \<in> set [''pending'', ''confirmed'', ''cancelled''])"

text \<open>\<^verbatim>\<open>.single()\<close>: the row when the query has exactly one, an error otherwise.\<close>

fun single :: "'a list \<Rightarrow> 'a option" where
  "single [x] = Some x"
| "single _ = None"

text \<open>\<^verbatim>\<open>supabase.from('slots').select('*').eq('id', slotId).single()\<close>\<close>

definition select_slot :: "db \<Rightarrow> string \<Rightarrow> slot_row option \<times> db" where
  "select_slot d sid =
     (single (filter (\<lambda>s. slot_row_id s = sid) (slots d)),
      d\<lparr>journal := journal d @ [SelectSlot sid]\<rparr>)"

text \<open>
  The first refusal that a new row of \<^verbatim>\<open>bookings\<close> meets, if any: the types of the columns
  in the order of the table, the columns that may not be null, the checks, the unique
  index, the foreign keys.
\<close>

definition bookings_violation :: "db \<Rightarrow> booking_row \<Rightarrow> db_error option" where
  "bookings_violation d b =
     (if \<not> in_text (customer_name b) then Some (UntranslatableCharacter ''customer_name'')
      else if \<not> in_text (customer_email b)
        then Some (UntranslatableCharacter ''customer_email'')
      else if \<not> in_text (customer_phone b)
        then Some (UntranslatableCharacter ''customer_phone'')
      else if \<not> in_integer (num_guests b) then Some (NumericValueOutOfRange ''num_guests'')
      else if \<not> in_decimal_10_2 (base_amount b)
        then Some (NumericValueOutOfRange ''base_amount'')
      else if \<not> in_decimal_10_2 (Some (discount_amount b))
        then Some (NumericValueOutOfRange ''discount_amount'')
      else if \<not> in_decimal_10_2 (final_amount b)
        then Some (NumericValueOutOfRange ''final_amount'')
      else if \<not> (case promo_code b of None \<Rightarrow> True | Some c \<Rightarrow> in_text c)
        then Some (UntranslatableCharacter ''promo_code'')
      else if base_amount b = None then Some (NotNullViolation ''base_amount'')
      else if final_amount b = None then Some (NotNullViolation ''final_amount'')
      else if \<not> valid_guests b then Some (CheckViolation ''valid_guests'')
      else if \<not> valid_status b then Some (CheckViolation ''valid_status'')
      else if booking_reference b \<in> set (map booking_reference (bookings d))
        then Some (UniqueViolation ''booking_reference'')
      else if experience_id b \<notin> set (map experience_row_id (experiences d))
        then Some (ForeignKeyViolation ''experience_id'')
      else if slot_id b \<notin> set (map slot_row_id (slots d))
        then Some (ForeignKeyViolation ''slot_id'')
      else None)"

text \<open>
  \<^verbatim>\<open>supabase.from('bookings').insert({...}).select().single()\<close>: the journal has the row as
  it was sent, the table and the answer have it as it is stored.
\<close>

definition insert_booking :: "db \<Rightarrow> booking_row \<Rightarrow> (db_error + booking_row) \<times> db" where
  "insert_booking d b =
     (let d1 = d\<lparr>journal := journal d @ [InsertBooking b]\<rparr>
      in case bookings_violation d b of
           Some e \<Rightarrow> (Inl e, d1)
         | None \<Rightarrow> (Inr (stored_booking b), d1\<lparr>bookings := bookings d @ [stored_booking b]\<rparr>))"

text \<open>
  \<^verbatim>\<open>supabase.from('slots').update({ booked: v }).eq('id', slotId)\<close>: every row with that id
  gets the new count; the statement is refused as a whole when an updated row violates
  \<^verbatim>\<open>valid_booked\<close>.
\<close>

definition set_booked :: "string \<Rightarrow> int \<Rightarrow> slot_row \<Rightarrow> slot_row" where
  "set_booked sid v s = (if slot_row_id s = sid then s\<lparr>booked := v\<rparr> else s)"

definition update_slot_booked :: "db \<Rightarrow> string \<Rightarrow> int \<Rightarrow> db_error option \<times> db" where
  "update_slot_booked d sid v =
     (let d1 = d\<lparr>journal := journal d @ [UpdateSlotBooked sid v]\<rparr>;
          rows = map (set_booked sid v) (slots d)
      in if list_all valid_booked (filter (\<lambda>s. slot_row_id s = sid) rows)
         then (None, d1\<lparr>slots := rows\<rparr>)
         else (Some (CheckViolation ''valid_booked''), d1))"

subsection \<open>The bookings function\<close>

text \<open>\<^verbatim>\<open>discountAmount || 0\<close> and \<^verbatim>\<open>promoCode || null\<close>\<close>

definition or_zero :: "rat option \<Rightarrow> rat" where
  "or_zero x = (case x of None \<Rightarrow> 0 | Some v \<Rightarrow> if v = 0 then 0 else v)"

definition or_null :: "string option \<Rightarrow> string option" where
  "or_null x = (case x of None \<Rightarrow> None | Some s \<Rightarrow> if s = [] then None else Some s)"

definition missing_required_fields :: response where
  "missing_required_fields = \<lparr>http_status = 400, body = ErrorBody ''Missing required fields''\<rparr>"

text \<open>The \<^verbatim>\<open>POST\<close> branch of the handler, from the parsed body on.\<close>

definition createBooking :: "(nat \<Rightarrow> rat) \<Rightarrow> db \<Rightarrow> booking_request \<Rightarrow> response \<times> db" where
  "createBooking rnd d req =
     (case (experienceId req, slotId req, customerName req, customerEmail req,
            customerPhone req, numGuests req) of
        (Some eid, Some sid, Some cname, Some email, Some phone, Some n) \<Rightarrow>
          if eid = [] \<or> sid = [] \<or> cname = [] \<or> email = [] \<or> phone = [] \<or> n = 0
          then (missing_required_fields, d)
          else (case select_slot d sid of
              (None, d1) \<Rightarrow> (\<lparr>http_status = 404, body = ErrorBody ''Slot not found''\<rparr>, d1)
            | (Some slot, d1) \<Rightarrow>
                if booked slot + n > capacity slot
                then (\<lparr>http_status = 400, body = ErrorBody ''Not enough capacity available''\<rparr>, d1)
                else
                  let bookingReference = generateBookingReference rnd
                  in (case insert_booking d1
                        \<lparr>experience_id = eid,
                         slot_id = sid,
                         customer_name = cname,
                         customer_email = email,
                         customer_phone = phone,
                         num_guests = n,
                         base_amount = baseAmount req,
                         discount_amount = or_zero (discountAmount req),
                         final_amount = finalAmount req,
                         promo_code = or_null (promoCode req),
                         status = ''confirmed'',
                         booking_reference = bookingReference\<rparr> of
                      (Inl bookingError, d2) \<Rightarrow>
                        (\<lparr>http_status = 500, body = StoreError bookingError\<rparr>, d2)
                    | (Inr booking, d2) \<Rightarrow>
                        (case update_slot_booked d2 sid (booked slot + n) of
                           (Some updateError, d3) \<Rightarrow>
                             (\<lparr>http_status = 500, body = StoreError updateError\<rparr>, d3)
                         | (None, d3) \<Rightarrow>
                             (\<lparr>http_status = 200, body = BookingData booking\<rparr>, d3))))
      | _ \<Rightarrow> (missing_required_fields, d))"

definition bookings_serve ::
  "string \<Rightarrow> (nat \<Rightarrow> rat) \<Rightarrow> db \<Rightarrow> booking_request \<Rightarrow> response \<times> db" where
  "bookings_serve method rnd d req =
     (if method = ''OPTIONS'' then (\<lparr>http_status = 200, body = NoBody\<rparr>, d)
      else if method = ''POST'' then createBooking rnd d req
      else (\<lparr>http_status = 405, body = ErrorBody ''Method not allowed''\<rparr>, d))"

text \<open>A sequence of booking requests, handled one after the other.\<close>

fun createBookings :: "db \<Rightarrow> ((nat \<Rightarrow> rat) \<times> booking_request) list \<Rightarrow> db" where
  "createBookings d [] = d"
| "createBookings d ((rnd, req) # ops) = createBookings (snd (createBooking rnd d req)) ops"

subsection \<open>The promo-validate function\<close>

text \<open>
  \<^verbatim>\<open>supabase.from('promo_codes').select('*').eq('code', c).eq('is_active', true).single()\<close>
\<close>

definition select_promo :: "db \<Rightarrow> string \<Rightarrow> promo_row option \<times> db" where
  "select_promo d c =
     (single (filter (\<lambda>p. code p = c \<and> is_active p = Some True) (promo_codes d)),
      d\<lparr>journal := journal d @ [SelectPromo c]\<rparr>)"

text \<open>
  The discount before the final \<^verbatim>\<open>Math.min\<close>. A null or zero \<^verbatim>\<open>max_discount\<close> is falsy and
  caps nothing; a type other than the two named ones leaves the discount at zero.
\<close>

definition calculate_discount :: "promo_row \<Rightarrow> rat \<Rightarrow> rat" where
  "calculate_discount promo amount =
     (if discount_type promo = ''percentage''
      then (let discountAmount = (amount * discount_value promo) / 100
            in case max_discount promo of
                 None \<Rightarrow> discountAmount
               | Some m \<Rightarrow> if m \<noteq> 0 \<and> discountAmount > m then m else discountAmount)
      else if discount_type promo = ''fixed'' then discount_value promo
      else 0)"

text \<open>
  The \<^verbatim>\<open>POST\<close> branch of the handler, from the parsed body \<^verbatim>\<open>{ code, amount }\<close> on;
  \<open>toUpperCase\<close> is the function that \<^verbatim>\<open>code.toUpperCase()\<close> calls and
  \<open>now\<close> is the value of \<^verbatim>\<open>new Date()\<close>. \<^verbatim>\<open>new Date(null)\<close> is the epoch, so a null
  \<^verbatim>\<open>valid_from\<close> reads as \<open>0\<close>. A null or zero \<^verbatim>\<open>min_amount\<close> is falsy and asks for
  nothing.
\<close>

definition validatePromo ::
  "(string \<Rightarrow> string) \<Rightarrow> int \<Rightarrow> db \<Rightarrow> string option \<Rightarrow> rat option \<Rightarrow> response \<times> db" where
  "validatePromo toUpperCase now d pcode pamount =
     (case (pcode, pamount) of
        (Some c, Some amount) \<Rightarrow>
          if c = [] \<or> amount = 0
          then (\<lparr>http_status = 400, body = ErrorBody ''Code and amount are required''\<rparr>, d)
          else (case select_promo d (toUpperCase c) of
              (None, d1) \<Rightarrow> (\<lparr>http_status = 200, body = ValidFalse ''Invalid promo code''\<rparr>, d1)
            | (Some promo, d1) \<Rightarrow>
                let validFrom = (case valid_from promo of None \<Rightarrow> 0 | Some t \<Rightarrow> t);
                    validUntil = valid_until promo
                in if now < validFrom \<or> now > validUntil
                   then (\<lparr>http_status = 200, body = ValidFalse ''Promo code has expired''\<rparr>, d1)
                   else if (case min_amount promo of
                              None \<Rightarrow> False
                            | Some m \<Rightarrow> m \<noteq> 0 \<and> amount < m)
                   then (\<lparr>http_status = 200,
                          body = ValidFalseMinimum
                            (case min_amount promo of None \<Rightarrow> 0 | Some m \<Rightarrow> m)\<rparr>, d1)
                   else
                     let discountAmount = min (calculate_discount promo amount) amount
                     in (\<lparr>http_status = 200,
                          body = ValidTrue discountAmount (amount - discountAmount)\<rparr>, d1))
      | _ \<Rightarrow> (\<lparr>http_status = 400, body = ErrorBody ''Code and amount are required''\<rparr>, d))"

definition promo_serve ::
  "string \<Rightarrow> (string \<Rightarrow> string) \<Rightarrow> int \<Rightarrow> db \<Rightarrow> string option \<Rightarrow> rat option
    \<Rightarrow> response \<times> db" where
  "promo_serve method toUpperCase now d pcode pamount =
     (if method = ''OPTIONS'' then (\<lparr>http_status = 200, body = NoBody\<rparr>, d)
      else if method = ''POST'' then validatePromo toUpperCase now d pcode pamount
      else (\<lparr>http_status = 405, body = ErrorBody ''Method not allowed''\<rparr>, d))"

subsection \<open>Notions used to state the properties\<close>

text \<open>The values on which JavaScript's \<^verbatim>\<open>!x\<close> is true.\<close>

definition falsy_string :: "string option \<Rightarrow> bool" where
  "falsy_string x = (x = None \<or> x = Some [])"

definition falsy_number :: "int option \<Rightarrow> bool" where
  "falsy_number x = (x = None \<or> x = Some 0)"

text \<open>The four tables hold the same rows; the journal may have grown.\<close>

definition same_tables :: "db \<Rightarrow> db \<Rightarrow> bool" where
  "same_tables d d' =
     (experiences d' = experiences d \<and> slots d' = slots d \<and> bookings d' = bookings d
      \<and> promo_codes d' = promo_codes d)"

subsection \<open>Sample data\<close>

text \<open>
  Rows after the sample data of the migration: one experience, two of its slots (the
  morning one of capacity 10 with 9 places taken), and the two promo codes \<^verbatim>\<open>SAVE10\<close> and
  \<^verbatim>\<open>FLAT100\<close>, valid until 2026-12-31 23:59:59 UTC.
\<close>

definition wine_tour :: experience_row where
  "wine_tour = \<lparr>experience_row_id = ''e1'', title = ''Wine Country Tour'', price = 249\<rparr>"

definition morning_slot :: slot_row where
  "morning_slot =
     \<lparr>slot_row_id = ''s1'', slot_experience_id = ''e1'', slot_date = ''2026-11-10'',
      slot_time = ''09:00:00'', capacity = 10, booked = 9, price_modifier = Some 1\<rparr>"

definition evening_slot :: slot_row where
  "evening_slot =
     \<lparr>slot_row_id = ''s2'', slot_experience_id = ''e1'', slot_date = ''2026-11-10'',
      slot_time = ''18:00:00'', capacity = 8, booked = 1, price_modifier = Some 1\<rparr>"

definition save10 :: promo_row where
  "save10 =
     \<lparr>code = ''SAVE10'', discount_type = ''percentage'', discount_value = 10,
      min_amount = Some 50, max_discount = None, valid_from = Some 1761782400000,
      valid_until = 1798761599000, is_active = Some True\<rparr>"

definition flat100 :: promo_row where
  "flat100 =
     \<lparr>code = ''FLAT100'', discount_type = ''fixed'', discount_value = 100,
      min_amount = Some 200, max_discount = Some 100, valid_from = Some 1761782400000,
      valid_until = 1798761599000, is_active = Some True\<rparr>"

definition shop :: db where
  "shop =
     \<lparr>experiences = [wine_tour], slots = [morning_slot, evening_slot], bookings = [],
      promo_codes = [save10, flat100], journal = []\<rparr>"

text \<open>A fixed discount of 500 with no minimum, and a store that offers it.\<close>

definition flat500 :: promo_row where
  "flat500 =
     \<lparr>code = ''FLAT500'', discount_type = ''fixed'', discount_value = 500,
      min_amount = None, max_discount = None, valid_from = None,
      valid_until = 1798761599000, is_active = Some True\<rparr>"

definition clearance :: db where
  "clearance = shop\<lparr>promo_codes := [flat500]\<rparr>"

text \<open>
  The store in which the nine places of the morning slot were taken by one booking whose
  reference is \<^verbatim>\<open>BKSSSSSSSS\<close>.
\<close>

definition grace_booking :: booking_row where
  "grace_booking =
     \<lparr>experience_id = ''e1'', slot_id = ''s1'', customer_name = ''Grace'',
      customer_email = ''grace@example.org'', customer_phone = ''+1 555 010 0099'',
      num_guests = 9, base_amount = Some 2241, discount_amount = 0,
      final_amount = Some 2241, promo_code = None, status = ''confirmed'',
      booking_reference = ''BKSSSSSSSS''\<rparr>"

definition busy_shop :: db where
  "busy_shop = shop\<lparr>bookings := [grace_booking]\<rparr>"

text \<open>A request for one guest in the morning slot, priced by the client as the pages do.\<close>

definition ada :: booking_request where
  "ada =
     \<lparr>experienceId = Some ''e1'', slotId = Some ''s1'', customerName = Some ''Ada'',
      customerEmail = Some ''ada@example.org'', customerPhone = Some ''+1 555 010 0100'',
      numGuests = Some 1, baseAmount = Some 249, discountAmount = Some 0,
      finalAmount = Some 249, promoCode = None\<rparr>"

text \<open>Two guests in the evening slot, for which the client states an amount of 1.\<close>

definition bargain :: booking_request where
  "bargain =
     \<lparr>experienceId = Some ''e1'', slotId = Some ''s2'', customerName = Some ''Bob'',
      customerEmail = Some ''bob@example.org'', customerPhone = Some ''+1 555 010 0101'',
      numGuests = Some 2, baseAmount = Some 1, discountAmount = None,
      finalAmount = Some 1, promoCode = None\<rparr>"

text \<open>One guest in the evening slot, with a promo code that no row of the store has.\<close>

definition freebie :: booking_request where
  "freebie =
     \<lparr>experienceId = Some ''e1'', slotId = Some ''s2'', customerName = Some ''Cyd'',
      customerEmail = Some ''cyd@example.org'', customerPhone = Some ''+1 555 010 0102'',
      numGuests = Some 1, baseAmount = Some 249, discountAmount = Some 249,
      finalAmount = Some 0, promoCode = Some ''FREEBIE''\<rparr>"

text \<open>
  One guest in the evening slot at a price of 59.97, with the discount 5.997 that ten per
  cent make and the final amount 53.973.
\<close>

definition odd_cents :: booking_request where
  "odd_cents =
     \<lparr>experienceId = Some ''e1'', slotId = Some ''s2'', customerName = Some ''Dee'',
      customerEmail = Some ''dee@example.org'', customerPhone = Some ''+1 555 010 0103'',
      numGuests = Some 1, baseAmount = Some (5997 / 100), discountAmount = Some (5997 / 1000),
      finalAmount = Some (53973 / 1000), promoCode = Some ''SAVE10''\<rparr>"

text \<open>Every draw of \<^verbatim>\<open>Math.random()\<close> gives one half: the reference is \<^verbatim>\<open>BKSSSSSSSS\<close>.\<close>

definition half :: "nat \<Rightarrow> rat" where
  "half i = 1 / 2"

text \<open>The draws \<open>0, 1/12, 2/12, \<dots>\<close>: the reference is \<^verbatim>\<open>BKADGJMPSV\<close>.\<close>

definition twelfths :: "nat \<Rightarrow> rat" where
  "twelfths i = of_nat i / 12"

text \<open>
  What \<^verbatim>\<open>toUpperCase\<close> does to a string of ASCII characters, the only strings on which the
  samples use it: a lower-case letter loses the bit of weight 32.
\<close>

definition upper_ascii_char :: "char \<Rightarrow> char" where
  "upper_ascii_char c =
     (let n = (of_char c :: nat)
      in if 97 \<le> n \<and> n \<le> 122
         then (case c of Char b0 b1 b2 b3 b4 b5 b6 b7 \<Rightarrow> Char b0 b1 b2 b3 b4 False b6 b7)
         else c)"

definition upper_ascii :: "string \<Rightarrow> string" where
  "upper_ascii s = map upper_ascii_char s"

text \<open>Noon of 2026-11-03 and the first millisecond of 2027, both UTC.\<close>

definition today :: int where
  "today = 1793707200000"

definition new_year :: int where
  "new_year = 1798761600000"

section \<open>Properties\<close>

subsection \<open>The booking reference\<close>

lemma length_chars: "length chars = 36"
  by (simp add: chars_def)

lemma charAt_random:
  fixes r :: rat
  assumes "0 \<le> r" and "r < 1"
  shows "\<exists>c. charAt chars \<lfloor>r * of_nat (length chars)\<rfloor> = [c] \<and> c \<in> set chars"
proof -
  let ?k = "\<lfloor>r * 36\<rfloor>"
  have lo: "0 \<le> ?k"
    using assms(1) by simp
  have "r * 36 < 36"
    using assms(2) by simp
  then have hi: "?k < 36"
    by (simp add: floor_less_iff)
  have "nat ?k < 36"
    using lo hi by linarith
  then have "nat ?k < length chars"
    by (simp add: length_chars)
  then have mem: "chars ! nat ?k \<in> set chars"
    by (rule nth_mem)
  have "charAt chars ?k = [chars ! nat ?k]"
    using lo hi by (simp add: charAt_def length_chars)
  then have "charAt chars \<lfloor>r * of_nat (length chars)\<rfloor> = [chars ! nat ?k]"
    by (simp add: length_chars)
  with mem show ?thesis
    by blast
qed

lemma gen_loop_shape:
  assumes "\<forall>j. i \<le> j \<and> j < 8 \<longrightarrow> 0 \<le> rnd j \<and> rnd j < 1" and "i \<le> 8"
  shows "\<exists>cs. gen_loop rnd i acc = acc @ cs \<and> length cs = 8 - i \<and> set cs \<subseteq> set chars"
  using assms
proof (induction rnd i acc rule: gen_loop.induct)
  case (1 rnd i result)
  show ?case
  proof (cases "i < 8")
    case False
    then have "gen_loop rnd i result = result"
      by (subst gen_loop.simps) simp
    with False "1.prems" show ?thesis
      by simp
  next
    case True
    with "1.prems" have "0 \<le> rnd i" and "rnd i < 1"
      by auto
    then obtain c where c: "charAt chars \<lfloor>rnd i * of_nat (length chars)\<rfloor> = [c]" "c \<in> set chars"
      using charAt_random by blast
    have "\<exists>cs. gen_loop rnd (i + 1) (result @ [c]) = (result @ [c]) @ cs
        \<and> length cs = 8 - (i + 1) \<and> set cs \<subseteq> set chars"
      using "1.IH" [OF True] "1.prems" True c(1) by auto
    then obtain cs where cs: "gen_loop rnd (i + 1) (result @ [c]) = (result @ [c]) @ cs"
        "length cs = 8 - (i + 1)" "set cs \<subseteq> set chars"
      by blast
    have "gen_loop rnd i result = gen_loop rnd (i + 1) (result @ [c])"
      using True c(1) by (subst gen_loop.simps) simp
    then have "gen_loop rnd i result = result @ (c # cs)"
      using cs(1) by simp
    moreover have "length (c # cs) = 8 - i"
      using True cs(2) by simp
    moreover have "set (c # cs) \<subseteq> set chars"
      using c(2) cs(3) by simp
    ultimately show ?thesis
      by blast
  qed
qed

text \<open>
  Claim C9. Whenever the eight draws of \<^verbatim>\<open>Math.random()\<close> lie in \<open>[0, 1)\<close>, as its contract
  says, the generated reference is \<^verbatim>\<open>BK\<close> followed by exactly eight characters, each of
  them one of the 36 symbols \<^verbatim>\<open>A-Z0-9\<close>.
\<close>

theorem generateBookingReference_format:
  assumes "\<forall>i<8. 0 \<le> rnd i \<and> rnd i < 1"
  shows "\<exists>cs. generateBookingReference rnd = ''BK'' @ cs \<and> length cs = 8
           \<and> set cs \<subseteq> set ''ABCDEFGHIJKLMNOPQRSTUVWXYZ0123456789''"
proof -
  have "\<exists>cs. gen_loop rnd 0 ''BK'' = ''BK'' @ cs \<and> length cs = 8 - 0 \<and> set cs \<subseteq> set chars"
    by (rule gen_loop_shape) (use assms in auto)
  then show ?thesis
    by (simp add: generateBookingReference_def chars_def)
qed

theorem generateBookingReference_format_witness:
  "list_all (\<lambda>i. 0 \<le> half i \<and> half i < 1) [0..<8]
   \<and> generateBookingReference half = ''BKSSSSSSSS''
   \<and> (\<exists>cs. generateBookingReference half = ''BK'' @ cs \<and> length cs = 8
           \<and> set cs \<subseteq> set ''ABCDEFGHIJKLMNOPQRSTUVWXYZ0123456789'')"
  using generateBookingReference_format [where rnd = half]
  by (simp add: generateBookingReference_def gen_loop.simps chars_def charAt_def half_def
      list_all_iff)

subsection \<open>Rounding\<close>

text \<open>The floor of a quotient of numerals, for the evaluation of \<open>round_decimal\<close>.\<close>

lemma floor_rat_numeral_divide [simp]:
  "\<lfloor>numeral a / (numeral b :: rat)\<rfloor> = numeral a div numeral b"
  by (metis floor_divide_of_int_eq of_int_numeral)

lemma floor_rat_one_divide [simp]:
  "\<lfloor>1 / (numeral b :: rat)\<rfloor> = 1 div numeral b"
  by (metis floor_divide_of_int_eq of_int_numeral of_int_1)

lemma round_decimal_samples:
  "round_decimal (10005 / 1000) = 1001 / 100" "round_decimal (- (5 / 1000)) = - (1 / 100)"
  "round_decimal 249 = 249" "round_decimal 0 = 0"
  by (simp_all add: round_decimal_def)

subsection \<open>The outcomes of a booking request\<close>

lemma bookings_violation_journal [simp]:
  "bookings_violation (d\<lparr>journal := j\<rparr>) b = bookings_violation d b"
  by (simp add: bookings_violation_def)

text \<open>A request either lacks a required field or carries all six.\<close>

lemma request_cases:
  obtains (missing) "falsy_string (experienceId req) \<or> falsy_string (slotId req)
      \<or> falsy_string (customerName req) \<or> falsy_string (customerEmail req)
      \<or> falsy_string (customerPhone req) \<or> falsy_number (numGuests req)"
  | (present) eid sid cname email phone n where
    "experienceId req = Some eid" "slotId req = Some sid" "customerName req = Some cname"
    "customerEmail req = Some email" "customerPhone req = Some phone" "numGuests req = Some n"
    "eid \<noteq> []" "sid \<noteq> []" "cname \<noteq> []" "email \<noteq> []" "phone \<noteq> []" "n \<noteq> 0"
  unfolding falsy_string_def falsy_number_def
  by (cases "experienceId req"; cases "slotId req"; cases "customerName req";
      cases "customerEmail req"; cases "customerPhone req"; cases "numGuests req")
    (simp_all, blast)

lemma createBooking_missing:
  assumes "falsy_string (experienceId req) \<or> falsy_string (slotId req)
      \<or> falsy_string (customerName req) \<or> falsy_string (customerEmail req)
      \<or> falsy_string (customerPhone req) \<or> falsy_number (numGuests req)"
  shows "createBooking rnd d req = (missing_required_fields, d)"
  using assms
  by (auto simp add: createBooking_def falsy_string_def falsy_number_def split: option.splits)

lemma createBooking_no_slot:
  assumes "experienceId req = Some eid" "slotId req = Some sid" "customerName req = Some cname"
    "customerEmail req = Some email" "customerPhone req = Some phone" "numGuests req = Some n"
    "eid \<noteq> []" "sid \<noteq> []" "cname \<noteq> []" "email \<noteq> []" "phone \<noteq> []" "n \<noteq> 0"
    and "single (filter (\<lambda>s. slot_row_id s = sid) (slots d)) = None"
  shows "createBooking rnd d req =
     (\<lparr>http_status = 404, body = ErrorBody ''Slot not found''\<rparr>,
      d\<lparr>journal := journal d @ [SelectSlot sid]\<rparr>)"
  using assms by (simp add: createBooking_def select_slot_def)

lemma createBooking_present:
  assumes "experienceId req = Some eid" "slotId req = Some sid" "customerName req = Some cname"
    "customerEmail req = Some email" "customerPhone req = Some phone" "numGuests req = Some n"
    "eid \<noteq> []" "sid \<noteq> []" "cname \<noteq> []" "email \<noteq> []" "phone \<noteq> []" "n \<noteq> 0"
    and "single (filter (\<lambda>s. slot_row_id s = sid) (slots d)) = Some slot"
    and "row = \<lparr>experience_id = eid, slot_id = sid, customer_name = cname,
                 customer_email = email, customer_phone = phone, num_guests = n,
                 base_amount = baseAmount req, discount_amount = or_zero (discountAmount req),
                 final_amount = finalAmount req, promo_code = or_null (promoCode req),
                 status = ''confirmed'', booking_reference = generateBookingReference rnd\<rparr>"
  shows "createBooking rnd d req =
     (if booked slot + n > capacity slot
      then (\<lparr>http_status = 400, body = ErrorBody ''Not enough capacity available''\<rparr>,
            d\<lparr>journal := journal d @ [SelectSlot sid]\<rparr>)
      else case bookings_violation d row of
        Some e \<Rightarrow>
          (\<lparr>http_status = 500, body = StoreError e\<rparr>,
           d\<lparr>journal := journal d @ [SelectSlot sid, InsertBooking row]\<rparr>)
      | None \<Rightarrow>
          if list_all valid_booked
               (filter (\<lambda>s. slot_row_id s = sid) (map (set_booked sid (booked slot + n)) (slots d)))
          then (\<lparr>http_status = 200, body = BookingData (stored_booking row)\<rparr>,
                d\<lparr>journal := journal d @ [SelectSlot sid, InsertBooking row,
                                             UpdateSlotBooked sid (booked slot + n)],
                  bookings := bookings d @ [stored_booking row],
                  slots := map (set_booked sid (booked slot + n)) (slots d)\<rparr>)
          else (\<lparr>http_status = 500, body = StoreError (CheckViolation ''valid_booked'')\<rparr>,
                d\<lparr>journal := journal d @ [SelectSlot sid, InsertBooking row,
                                             UpdateSlotBooked sid (booked slot + n)],
                  bookings := bookings d @ [stored_booking row]\<rparr>))"
  using assms
  by (simp add: createBooking_def select_slot_def insert_booking_def update_slot_booked_def
      Let_def split: option.splits)


lemma bookings_violation_None_guests:
  "bookings_violation d row = None \<Longrightarrow> num_guests row > 0"
  by (simp add: bookings_violation_def valid_guests_def split: if_splits)

lemma bookings_violation_cong:
  assumes "map experience_row_id (experiences d') = map experience_row_id (experiences d)"
    and "slots d' = slots d" and "bookings d' = bookings d"
  shows "bookings_violation d' b = bookings_violation d b"
  using assms by (simp add: bookings_violation_def)


text \<open>The six ways in which the handler ends, with the store each of them leaves.\<close>

lemma createBooking_outcomes:
  obtains
    (rejected)
      "createBooking rnd d req = (missing_required_fields, d)"
  | (no_slot) sid where
      "createBooking rnd d req =
         (\<lparr>http_status = 404, body = ErrorBody ''Slot not found''\<rparr>,
          d\<lparr>journal := journal d @ [SelectSlot sid]\<rparr>)"
  | (full) sid where
      "createBooking rnd d req =
         (\<lparr>http_status = 400, body = ErrorBody ''Not enough capacity available''\<rparr>,
          d\<lparr>journal := journal d @ [SelectSlot sid]\<rparr>)"
  | (refused) sid row e where
      "createBooking rnd d req =
         (\<lparr>http_status = 500, body = StoreError e\<rparr>,
          d\<lparr>journal := journal d @ [SelectSlot sid, InsertBooking row]\<rparr>)"
      "bookings_violation d row = Some e"
  | (stranded) sid row v where
      "createBooking rnd d req =
         (\<lparr>http_status = 500, body = StoreError (CheckViolation ''valid_booked'')\<rparr>,
          d\<lparr>journal := journal d @ [SelectSlot sid, InsertBooking row, UpdateSlotBooked sid v],
            bookings := bookings d @ [stored_booking row]\<rparr>)"
      "bookings_violation d row = None" "numGuests req = Some (num_guests row)"
  | (admitted) sid row v where
      "createBooking rnd d req =
         (\<lparr>http_status = 200, body = BookingData (stored_booking row)\<rparr>,
          d\<lparr>journal := journal d @ [SelectSlot sid, InsertBooking row, UpdateSlotBooked sid v],
            bookings := bookings d @ [stored_booking row],
            slots := map (set_booked sid v) (slots d)\<rparr>)"
      "bookings_violation d row = None" "numGuests req = Some (num_guests row)"
      "base_amount row = baseAmount req" "discount_amount row = or_zero (discountAmount req)"
      "final_amount row = finalAmount req" "promo_code row = or_null (promoCode req)"
proof (cases req rule: request_cases)
  case missing
  then show ?thesis
    using rejected by (simp add: createBooking_missing)
next
  case (present eid sid cname email phone n)
  show ?thesis
  proof (cases "single (filter (\<lambda>s. slot_row_id s = sid) (slots d))")
    case None
    then show ?thesis
      using no_slot present by (simp add: createBooking_no_slot)
  next
    case (Some slot)
    define row where "row = \<lparr>experience_id = eid, slot_id = sid, customer_name = cname,
                 customer_email = email, customer_phone = phone, num_guests = n,
                 base_amount = baseAmount req, discount_amount = or_zero (discountAmount req),
                 final_amount = finalAmount req, promo_code = or_null (promoCode req),
                 status = ''confirmed'', booking_reference = generateBookingReference rnd\<rparr>"
    note eq = createBooking_present [OF present Some row_def]
    show ?thesis
    proof (cases "booked slot + n > capacity slot")
      case True
      then show ?thesis
        using full eq by simp
    next
      case room: False
      show ?thesis
      proof (cases "bookings_violation d row")
        case (Some e)
        then show ?thesis
          using refused [where sid = sid and row = row and e = e] eq room by simp
      next
        case None
        show ?thesis
        proof (cases "list_all valid_booked
            (filter (\<lambda>s. slot_row_id s = sid) (map (set_booked sid (booked slot + n)) (slots d)))")
          case True
          then show ?thesis
            using admitted [where sid = sid and row = row and v = "booked slot + n"]
              eq room None present(6)
            by (simp add: row_def)
        next
          case False
          then show ?thesis
            using stranded [where sid = sid and row = row and v = "booked slot + n"]
              eq room None present(6)
            by (simp add: row_def)
        qed
      qed
    qed
  qed
qed

text \<open>The response depends on the ids of the experiences, on the slots and on the bookings only.\<close>

lemma createBooking_response_cong:
  assumes "map experience_row_id (experiences d') = map experience_row_id (experiences d)"
    and "slots d' = slots d" and "bookings d' = bookings d"
  shows "fst (createBooking rnd d' req) = fst (createBooking rnd d req)"
proof (cases req rule: request_cases)
  case missing
  then show ?thesis
    by (simp add: createBooking_missing)
next
  case (present eid sid cname email phone n)
  show ?thesis
  proof (cases "single (filter (\<lambda>s. slot_row_id s = sid) (slots d))")
    case None
    then show ?thesis
      using present assms(2) by (simp add: createBooking_no_slot)
  next
    case (Some slot)
    have Some': "single (filter (\<lambda>s. slot_row_id s = sid) (slots d')) = Some slot"
      using Some assms(2) by simp
    show ?thesis
      by (simp add: createBooking_present [OF present Some refl]
          createBooking_present [OF present Some' refl]
          bookings_violation_cong [OF assms] assms(2) split: option.splits)
  qed
qed

lemma bookings_serve_POST: "bookings_serve ''POST'' rnd d req = createBooking rnd d req"
  by (simp add: bookings_serve_def)

text \<open>The definitions that a run of the handler on sample data unfolds.\<close>

lemmas run_defs =
  createBooking_def select_slot_def insert_booking_def update_slot_booked_def
  bookings_violation_def valid_guests_def valid_status_def valid_booked_def set_booked_def
  or_zero_def or_null_def Let_def generateBookingReference_def gen_loop.simps chars_def
  charAt_def in_text_def in_integer_def in_decimal_10_2_def round_decimal_def
  stored_booking_def

lemmas data_defs =
  shop_def busy_shop_def clearance_def morning_slot_def evening_slot_def wine_tour_def
  grace_booking_def ada_def bargain_def freebie_def odd_cents_def half_def twelfths_def save10_def
  flat100_def flat500_def today_def new_year_def upper_ascii_def upper_ascii_char_def

text \<open>
  The types of the columns at work: an amount of \<open>10\<^sup>8\<close> and a guest count beyond 32 bits
  are refused on insert, and the count of the slot stays as it was.
\<close>

lemma createBooking_column_types:
  "fst (createBooking half shop (ada\<lparr>baseAmount := Some 100000000\<rparr>))
     = \<lparr>http_status = 500, body = StoreError (NumericValueOutOfRange ''base_amount'')\<rparr>"
  "map booked (slots (snd (createBooking half shop (ada\<lparr>baseAmount := Some 100000000\<rparr>))))
     = [9, 1]"
  "fst (createBooking half shop (ada\<lparr>numGuests := Some (- 2147483649)\<rparr>))
     = \<lparr>http_status = 500, body = StoreError (NumericValueOutOfRange ''num_guests'')\<rparr>"
  by (simp_all add: run_defs data_defs)

subsection \<open>Required fields\<close>

text \<open>
  What the check of the required fields covers. A request in which the experience id, the
  slot id, the name, the email or the phone is missing or empty, or the guest count is
  missing or zero, is answered 400 \<^verbatim>\<open>Missing required fields\<close> and the store is left as it
  was, journal included. A negative guest count is truthy and passes the check; such a
  request is never answered with success and changes no table either, and its status is
  400, 404 or 500.
\<close>

lemma createBooking_required_fields:
  "(falsy_string (experienceId req) \<or> falsy_string (slotId req)
      \<or> falsy_string (customerName req) \<or> falsy_string (customerEmail req)
      \<or> falsy_string (customerPhone req) \<or> falsy_number (numGuests req)
     \<longrightarrow> createBooking rnd d req = (missing_required_fields, d))
   \<and> (\<forall>n. numGuests req = Some n \<and> n < 0
     \<longrightarrow> http_status (fst (createBooking rnd d req)) \<in> {400, 404, 500}
       \<and> same_tables d (snd (createBooking rnd d req)))"
proof (intro conjI impI allI)
  assume "falsy_string (experienceId req) \<or> falsy_string (slotId req)
      \<or> falsy_string (customerName req) \<or> falsy_string (customerEmail req)
      \<or> falsy_string (customerPhone req) \<or> falsy_number (numGuests req)"
  then show "createBooking rnd d req = (missing_required_fields, d)"
    by (rule createBooking_missing)
next
  fix n
  assume neg: "numGuests req = Some n \<and> n < 0"
  show "http_status (fst (createBooking rnd d req)) \<in> {400, 404, 500}"
  proof (cases rule: createBooking_outcomes [where rnd = rnd and d = d and req = req])
    case (admitted sid row v)
    then show ?thesis
      using neg bookings_violation_None_guests [of d row] by simp
  qed (simp_all add: missing_required_fields_def)
next
  fix n
  assume neg: "numGuests req = Some n \<and> n < 0"
  show "same_tables d (snd (createBooking rnd d req))"
  proof (cases rule: createBooking_outcomes [where rnd = rnd and d = d and req = req])
    case (stranded sid row v)
    then show ?thesis
      using neg bookings_violation_None_guests [of d row] by simp
  next
    case (admitted sid row v)
    then show ?thesis
      using neg bookings_violation_None_guests [of d row] by simp
  qed (simp_all add: same_tables_def)
qed

lemma createBooking_required_fields_example:
  "falsy_number (numGuests (ada\<lparr>numGuests := Some 0\<rparr>))
   \<and> createBooking half shop (ada\<lparr>numGuests := Some 0\<rparr>) = (missing_required_fields, shop)
   \<and> falsy_string (customerPhone (ada\<lparr>customerPhone := Some []\<rparr>))
   \<and> createBooking half shop (ada\<lparr>customerPhone := Some []\<rparr>) = (missing_required_fields, shop)
   \<and> http_status (fst (createBooking half shop (ada\<lparr>numGuests := Some (- 2)\<rparr>))) = 500
   \<and> same_tables shop (snd (createBooking half shop (ada\<lparr>numGuests := Some (- 2)\<rparr>)))"
  using createBooking_required_fields
      [where req = "ada\<lparr>numGuests := Some 0\<rparr>" and rnd = half and d = shop]
    createBooking_required_fields
      [where req = "ada\<lparr>customerPhone := Some []\<rparr>" and rnd = half and d = shop]
    createBooking_required_fields
      [where req = "ada\<lparr>numGuests := Some (- 2)\<rparr>" and rnd = half and d = shop]
  by (simp add: falsy_number_def falsy_string_def run_defs data_defs)

text \<open>
  Claim C7: a request whose guest count is not greater than zero, negative values
  included, fails with the error of an invalid request and changes no state. The handler
  at a guest count of \<open>-1\<close>, every other field present, the slot found and room in it:
  the check \<^verbatim>\<open>!numGuests\<close> lets the request through, the insert is refused by the store
  under \<^verbatim>\<open>valid_guests\<close>, and the answer is the 500 of the \<^verbatim>\<open>catch\<close> block with the store's
  message, not the 400 \<^verbatim>\<open>Missing required fields\<close>. No table has changed.
\<close>

theorem createBooking_negative_guests:
  "createBooking half shop (ada\<lparr>numGuests := Some (- 1)\<rparr>)
     = (\<lparr>http_status = 500, body = StoreError (CheckViolation ''valid_guests'')\<rparr>,
        shop\<lparr>journal :=
          [SelectSlot ''s1'',
           InsertBooking
             \<lparr>experience_id = ''e1'', slot_id = ''s1'', customer_name = ''Ada'',
              customer_email = ''ada@example.org'', customer_phone = ''+1 555 010 0100'',
              num_guests = - 1, base_amount = Some 249, discount_amount = 0,
              final_amount = Some 249, promo_code = None, status = ''confirmed'',
              booking_reference = ''BKSSSSSSSS''\<rparr>]\<rparr>)"
  by (simp add: run_defs data_defs)

subsection \<open>Admission\<close>





subsection \<open>Capacity\<close>

lemma list_all_set_booked:
  assumes "list_all valid_booked xs"
    and "list_all valid_booked (filter (\<lambda>s. slot_row_id s = sid) (map (set_booked sid v) xs))"
  shows "list_all valid_booked (map (set_booked sid v) xs)"
  using assms
  by (induction xs) (auto simp: set_booked_def split: if_splits)

text \<open>
  Each call of the store keeps the counts within the capacities, so the handlers do in
  whatever order their calls reach the store.
\<close>

lemma update_slot_booked_valid_booked:
  assumes "list_all valid_booked (slots d)"
  shows "list_all valid_booked (slots (snd (update_slot_booked d sid v)))"
  using assms list_all_set_booked [OF assms, of sid v]
  by (simp add: update_slot_booked_def Let_def)

lemma insert_booking_slots: "slots (snd (insert_booking d b)) = slots d"
  by (simp add: insert_booking_def Let_def split: option.splits)

lemma select_slot_slots: "slots (snd (select_slot d sid)) = slots d"
  by (simp add: select_slot_def)

lemma createBooking_valid_booked:
  assumes "list_all valid_booked (slots d)"
  shows "list_all valid_booked (slots (snd (createBooking rnd d req)))"
proof (cases req rule: request_cases)
  case missing
  then show ?thesis
    using assms by (simp add: createBooking_missing)
next
  case (present eid sid cname email phone n)
  show ?thesis
  proof (cases "single (filter (\<lambda>s. slot_row_id s = sid) (slots d))")
    case None
    then show ?thesis
      using assms present by (simp add: createBooking_no_slot)
  next
    case (Some slot)
    show ?thesis
      using assms list_all_set_booked [OF assms, of sid "booked slot + n"]
      by (simp add: createBooking_present [OF present Some refl] split: option.splits)
  qed
qed

lemma createBookings_valid_booked:
  assumes "list_all valid_booked (slots d)"
  shows "list_all valid_booked (slots (createBookings d ops))"
  using assms
proof (induction ops arbitrary: d)
  case Nil
  then show ?case by simp
next
  case (Cons op ops)
  obtain rnd req where op: "op = (rnd, req)"
    by (cases op)
  have "list_all valid_booked (slots (snd (createBooking rnd d req)))"
    using Cons.prems by (rule createBooking_valid_booked)
  then show ?case
    unfolding op by (simp add: Cons.IH)
qed

text \<open>
  Claim C1. When every slot of the store satisfies \<open>0 \<le> booked \<le> capacity\<close>, every slot
  satisfies it after each of the booking requests of any sequence handled one after the
  other (\<open>take k ops\<close> is the sequence up to its \<open>k\<close>-th request): no booking drives a
  count above the capacity or below zero.
\<close>

theorem createBookings_booked_within_capacity:
  assumes "list_all valid_booked (slots d)"
  shows "\<forall>s \<in> set (slots (createBookings d (take k ops))).
           0 \<le> booked s \<and> booked s \<le> capacity s"
proof -
  have "list_all valid_booked (slots (createBookings d (take k ops)))"
    using assms by (rule createBookings_valid_booked)
  then show ?thesis
    by (simp add: list_all_iff valid_booked_def)
qed

theorem createBookings_booked_within_capacity_witness:
  "list_all valid_booked (slots shop)
   \<and> map booked (slots (createBookings shop (take 2 [(half, ada), (twelfths, bargain), (half, ada)])))
       = [10, 3]
   \<and> list_all (\<lambda>s. 0 \<le> booked s \<and> booked s \<le> capacity s)
         (slots (createBookings shop (take 2 [(half, ada), (twelfths, bargain), (half, ada)])))"
  using createBookings_booked_within_capacity
    [where d = shop and k = 2 and ops = "[(half, ada), (twelfths, bargain), (half, ada)]"]
  by (simp add: run_defs data_defs)

subsection \<open>The order of the store calls\<close>

text \<open>
  Claim C6, as the claim states it, fails: the handler inserts the booking row first and
  updates the count of the slot afterwards. The journal of an admitted booking shows the
  three calls in the order in which they reach the store.
\<close>

theorem createBooking_order_counterexample:
  "journal (snd (createBooking half shop ada)) =
     [SelectSlot ''s1'',
      InsertBooking
        \<lparr>experience_id = ''e1'', slot_id = ''s1'', customer_name = ''Ada'',
         customer_email = ''ada@example.org'', customer_phone = ''+1 555 010 0100'',
         num_guests = 1, base_amount = Some 249, discount_amount = 0,
         final_amount = Some 249, promo_code = None, status = ''confirmed'',
         booking_reference = ''BKSSSSSSSS''\<rparr>,
      UpdateSlotBooked ''s1'' 10]"
  by (simp add: run_defs data_defs)

text \<open>
  Claim C6, amended. In every booking attempt the calls of the handler are an initial part
  of the sequence: select the slot, insert the booking row, update the count of the slot.
  The update is issued only after the insert, and only when the store has accepted the
  row; the update never precedes the insert of the row.
\<close>

theorem createBooking_order:
  "\<exists>sid b v.
      journal (snd (createBooking rnd d req)) = journal d
    \<or> journal (snd (createBooking rnd d req)) = journal d @ [SelectSlot sid]
    \<or> journal (snd (createBooking rnd d req)) = journal d @ [SelectSlot sid, InsertBooking b]
    \<or> (journal (snd (createBooking rnd d req))
          = journal d @ [SelectSlot sid, InsertBooking b, UpdateSlotBooked sid v]
        \<and> bookings (snd (createBooking rnd d req)) = bookings d @ [stored_booking b])"
proof (cases rule: createBooking_outcomes [where rnd = rnd and d = d and req = req])
  case rejected
  then show ?thesis by simp
next
  case (no_slot sid)
  then show ?thesis by simp
next
  case (full sid)
  then show ?thesis by simp
next
  case (refused sid row e)
  then have "journal (snd (createBooking rnd d req))
      = journal d @ [SelectSlot sid, InsertBooking row]"
    by simp
  then show ?thesis by blast
next
  case (stranded sid row v)
  then have "journal (snd (createBooking rnd d req))
      = journal d @ [SelectSlot sid, InsertBooking row, UpdateSlotBooked sid v]"
    and "bookings (snd (createBooking rnd d req)) = bookings d @ [stored_booking row]"
    by simp_all
  then show ?thesis by blast
next
  case (admitted sid row v)
  then have "journal (snd (createBooking rnd d req))
      = journal d @ [SelectSlot sid, InsertBooking row, UpdateSlotBooked sid v]"
    and "bookings (snd (createBooking rnd d req)) = bookings d @ [stored_booking row]"
    by simp_all
  then show ?thesis by blast
qed

theorem createBooking_order_witness:
  "journal (snd (createBooking twelfths busy_shop ada))
     = journal busy_shop @
       [SelectSlot ''s1'',
        InsertBooking
          \<lparr>experience_id = ''e1'', slot_id = ''s1'', customer_name = ''Ada'',
           customer_email = ''ada@example.org'', customer_phone = ''+1 555 010 0100'',
           num_guests = 1, base_amount = Some 249, discount_amount = 0,
           final_amount = Some 249, promo_code = None, status = ''confirmed'',
           booking_reference = ''BKADGJMPSV''\<rparr>,
        UpdateSlotBooked ''s1'' 10]
   \<and> bookings (snd (createBooking twelfths busy_shop ada))
     = bookings busy_shop @
       [\<lparr>experience_id = ''e1'', slot_id = ''s1'', customer_name = ''Ada'',
         customer_email = ''ada@example.org'', customer_phone = ''+1 555 010 0100'',
         num_guests = 1, base_amount = Some 249, discount_amount = 0,
         final_amount = Some 249, promo_code = None, status = ''confirmed'',
         booking_reference = ''BKADGJMPSV''\<rparr>]"
  using createBooking_order [where rnd = twelfths and d = busy_shop and req = ada]
  by (simp add: run_defs data_defs)

subsection \<open>The amounts and the promo code of a booking\<close>












section \<open>Properties of the promo-validate function\<close>

lemma promo_serve_POST:
  "promo_serve ''POST'' toUpperCase now d pcode pamount
     = validatePromo toUpperCase now d pcode pamount"
  by (simp add: promo_serve_def)

text \<open>The answers once the code and the amount are there and the code resolves to a row.\<close>

lemma validatePromo_found:
  assumes "pcode = Some c" "c \<noteq> []" "pamount = Some amount" "amount \<noteq> 0"
    and "single (filter (\<lambda>p. code p = toUpperCase c \<and> is_active p = Some True) (promo_codes d))
           = Some promo"
  shows "validatePromo toUpperCase now d pcode pamount =
     (let d1 = d\<lparr>journal := journal d @ [SelectPromo (toUpperCase c)]\<rparr>;
          discountAmount = min (calculate_discount promo amount) amount
      in if now < (case valid_from promo of None \<Rightarrow> 0 | Some t \<Rightarrow> t) \<or> now > valid_until promo
         then (\<lparr>http_status = 200, body = ValidFalse ''Promo code has expired''\<rparr>, d1)
         else if (case min_amount promo of None \<Rightarrow> False | Some m \<Rightarrow> m \<noteq> 0 \<and> amount < m)
         then (\<lparr>http_status = 200,
                body = ValidFalseMinimum (case min_amount promo of None \<Rightarrow> 0 | Some m \<Rightarrow> m)\<rparr>, d1)
         else (\<lparr>http_status = 200,
                body = ValidTrue discountAmount (amount - discountAmount)\<rparr>, d1))"
  using assms
  by (simp add: validatePromo_def select_promo_def Let_def split: option.splits)

lemmas promo_defs =
  validatePromo_def select_promo_def calculate_discount_def Let_def

text \<open>
  Claim C10. When the amount is absent or zero, or the code is absent or empty, the answer
  is 400 \<^verbatim>\<open>Code and amount are required\<close> and the store is as it was, journal included: no
  promo code has been looked up, whatever the table holds.
\<close>

theorem validatePromo_requires_code_and_amount:
  assumes "pcode = None \<or> pcode = Some [] \<or> pamount = None \<or> pamount = Some 0"
  shows "validatePromo toUpperCase now d pcode pamount
           = (\<lparr>http_status = 400, body = ErrorBody ''Code and amount are required''\<rparr>, d)"
  using assms by (auto simp add: validatePromo_def split: option.splits)

theorem validatePromo_requires_code_and_amount_witness:
  "single (filter (\<lambda>p. code p = ''SAVE10'' \<and> is_active p = Some True) (promo_codes shop))
     = Some save10
   \<and> validatePromo upper_ascii today shop (Some ''SAVE10'') (Some 0)
       = (\<lparr>http_status = 400, body = ErrorBody ''Code and amount are required''\<rparr>, shop)"
  using validatePromo_requires_code_and_amount
    [where toUpperCase = upper_ascii and pcode = "Some ''SAVE10''" and pamount = "Some 0"
      and now = today and d = shop]
  by (simp add: data_defs)

text \<open>
  Claim C8, as the claim states it, fails: the error of an expired code is not given
  regardless of the amount. \<^verbatim>\<open>FLAT100\<close> resolves to an active row and the time is past its
  last day, yet with the amount 0 the answer is 400 \<^verbatim>\<open>Code and amount are required\<close>, given
  before the code is looked up.
\<close>

theorem validatePromo_expired_counterexample:
  "single (filter (\<lambda>p. code p = upper_ascii ''FLAT100'' \<and> is_active p = Some True)
       (promo_codes shop)) = Some flat100
   \<and> new_year > valid_until flat100
   \<and> validatePromo upper_ascii new_year shop (Some ''FLAT100'') (Some 0)
       = (\<lparr>http_status = 400, body = ErrorBody ''Code and amount are required''\<rparr>, shop)"
  by (simp add: data_defs promo_defs)

text \<open>
  Claim C8, amended. When the amount is not zero, the code is not empty and resolves to an
  active row, and the current time is before \<^verbatim>\<open>valid_from\<close> or after \<^verbatim>\<open>valid_until\<close>, the
  answer is \<^verbatim>\<open>valid: false\<close> with the error \<^verbatim>\<open>Promo code has expired\<close>, whatever that amount
  and the minimum of the row are: the dates are checked before the minimum.
\<close>

theorem validatePromo_expired:
  assumes "pcode = Some c" "c \<noteq> []" "pamount = Some amount" "amount \<noteq> 0"
    and "single (filter (\<lambda>p. code p = toUpperCase c \<and> is_active p = Some True) (promo_codes d))
           = Some promo"
    and "now < (case valid_from promo of None \<Rightarrow> 0 | Some t \<Rightarrow> t) \<or> now > valid_until promo"
  shows "fst (validatePromo toUpperCase now d pcode pamount)
           = \<lparr>http_status = 200, body = ValidFalse ''Promo code has expired''\<rparr>"
  using assms(6) by (simp add: validatePromo_found [where toUpperCase = toUpperCase, OF assms(1-5)] Let_def)

text \<open>
  The witness: \<^verbatim>\<open>FLAT100\<close> asks for 200 at least; past its last day an amount of 150 is
  told that the code has expired, not that the minimum is missed.
\<close>

theorem validatePromo_expired_witness:
  "single (filter (\<lambda>p. code p = upper_ascii ''flat100'' \<and> is_active p = Some True)
       (promo_codes shop)) = Some flat100
   \<and> new_year > valid_until flat100
   \<and> min_amount flat100 = Some 200
   \<and> fst (validatePromo upper_ascii new_year shop (Some ''flat100'') (Some 150))
       = \<lparr>http_status = 200, body = ValidFalse ''Promo code has expired''\<rparr>
   \<and> fst (validatePromo upper_ascii today shop (Some ''flat100'') (Some 150))
       = \<lparr>http_status = 200, body = ValidFalseMinimum 200\<rparr>"
  using validatePromo_expired
    [where toUpperCase = upper_ascii and pcode = "Some ''flat100''" and c = "''flat100''"
      and pamount = "Some 150" and amount = 150 and d = shop and promo = flat100
      and now = new_year]
  by (simp add: data_defs promo_defs)

text \<open>
  Claim C5. For an active code within its dates whose minimum is met, the answer is
  \<^verbatim>\<open>valid: true\<close> with the discount \<open>min (calculated discount) amount\<close> and the final
  amount \<open>amount - discount\<close>, which is never negative.
\<close>

theorem validatePromo_discount_clamped:
  assumes "pcode = Some c" "c \<noteq> []" "pamount = Some amount" "amount \<noteq> 0"
    and "single (filter (\<lambda>p. code p = toUpperCase c \<and> is_active p = Some True) (promo_codes d))
           = Some promo"
    and "(case valid_from promo of None \<Rightarrow> 0 | Some t \<Rightarrow> t) \<le> now" "now \<le> valid_until promo"
    and "case min_amount promo of None \<Rightarrow> True | Some m \<Rightarrow> m \<le> amount"
  shows "\<exists>discountAmount finalAmount.
           fst (validatePromo toUpperCase now d pcode pamount)
             = \<lparr>http_status = 200, body = ValidTrue discountAmount finalAmount\<rparr>
         \<and> discountAmount = min (calculate_discount promo amount) amount
         \<and> discountAmount \<le> amount
         \<and> finalAmount = amount - discountAmount
         \<and> 0 \<le> finalAmount"
  using assms(6-8)
  by (auto simp add: validatePromo_found [where toUpperCase = toUpperCase, OF assms(1-5)] Let_def split: option.splits)

text \<open>The witness: a fixed discount of 500 on an amount of 100 is cut to 100, and 0 is due.\<close>

theorem validatePromo_discount_clamped_witness:
  "single (filter (\<lambda>p. code p = upper_ascii ''flat500'' \<and> is_active p = Some True)
       (promo_codes clearance)) = Some flat500
   \<and> calculate_discount flat500 100 = 500
   \<and> fst (validatePromo upper_ascii today clearance (Some ''flat500'') (Some 100))
       = \<lparr>http_status = 200, body = ValidTrue 100 0\<rparr>
   \<and> fst (validatePromo upper_ascii today shop (Some ''save10'') (Some 100))
       = \<lparr>http_status = 200, body = ValidTrue 10 90\<rparr>"
  using validatePromo_discount_clamped
    [where toUpperCase = upper_ascii and pcode = "Some ''flat500''" and c = "''flat500''"
      and pamount = "Some 100" and amount = 100 and d = clearance and promo = flat500
      and now = today]
  by (simp add: data_defs promo_defs)

end
